theory Spec2Isabelle
  imports Complex_Main "HOL-Library.Sublist" "HOL-Library.AList"
begin

section \<open>JavaScript values used by the application\<close>

text \<open>
  Strings are modelled as \<^typ>\<open>string\<close>: a list of 8-bit characters, read as the code
  units U+0000 to U+00FF. Numbers are exact: durations are rationals, counters are integers
  (no NaN, no infinities, no rounding to doubles).
\<close>

text \<open>JavaScript truthiness of \<open>string | undefined\<close>: \<open>undefined\<close> and \<open>""\<close> are falsy.\<close>

definition truthy :: "string option \<Rightarrow> bool" where
  "truthy v = (case v of None \<Rightarrow> False | Some s \<Rightarrow> s \<noteq> [])"

text \<open>
  \<open>String.prototype.includes\<close>: the needle occurs as a contiguous substring (the plain
  name is a keyword of Isabelle, hence the prefix).
\<close>

fun str_includes :: "string \<Rightarrow> string \<Rightarrow> bool" where
  "str_includes [] n = (n = [])"
| "str_includes (c # cs) n = (prefix n (c # cs) \<or> str_includes cs n)"

text \<open>
  \<open>String.prototype.toLowerCase\<close> on the code units below U+0100: the ASCII capitals and
  the Latin-1 capitals (U+00C0 to U+00DE without the multiplication sign U+00D7) move up by 32.
\<close>

definition lower_char :: "char \<Rightarrow> char" where
  "lower_char c =
     (let n = (of_char c :: nat)
      in if (65 \<le> n \<and> n \<le> 90) \<or> (192 \<le> n \<and> n \<le> 222 \<and> n \<noteq> 215)
         then char_of (n + 32) else c)"

definition toLowerCase :: "string \<Rightarrow> string" where
  "toLowerCase s = map lower_char s"

text \<open>
  \<open>String.prototype.trim\<close>: white space and line terminators are removed at both ends
  (below U+0100 these are TAB, LF, VT, FF, CR, SPACE and NBSP).
\<close>

definition is_trim_space :: "char \<Rightarrow> bool" where
  "is_trim_space c = ((of_char c :: nat) \<in> {9, 10, 11, 12, 13, 32, 160})"

definition trim :: "string \<Rightarrow> string" where
  "trim s = rev (dropWhile is_trim_space (rev (dropWhile is_trim_space s)))"

text \<open>\<open>message.slice(0, n)\<close> for a non-negative \<open>n\<close>.\<close>

definition slice0 :: "nat \<Rightarrow> string \<Rightarrow> string" where
  "slice0 n s = take n s"

text \<open>
  A thrown value. \<open>Error\<close> and \<open>SyntaxError\<close> objects carry their message; any other thrown
  value is kept as the text \<open>String(value)\<close> gives for it.
\<close>

datatype thrown = Error string | SyntaxError string | NonError string

section \<open>The error classifier (App.tsx, getFriendlyErrorMessage)\<close>

text \<open>\<open>error instanceof Error ? error.message : String(error)\<close>\<close>

fun message_of :: "thrown \<Rightarrow> string" where
  "message_of (Error m) = m"
| "message_of (SyntaxError m) = m"
| "message_of (NonError s) = s"

definition getFriendlyErrorMessage :: "thrown \<Rightarrow> string" where
  "getFriendlyErrorMessage error =
     (let message = message_of error in
      if str_includes message ''API Key is missing'' then
        ''Configuration Error: The API Key is missing. Please check your environment settings.''
      else if str_includes message ''429'' \<or> str_includes (toLowerCase message) ''quota''
              \<or> str_includes (toLowerCase message) ''exhausted'' then
        ''Usage Limit Exceeded: The AI service is currently busy or you have hit your rate limit. Please wait a minute and try again.''
      else if str_includes message ''400'' \<or> str_includes message ''403''
              \<or> str_includes message ''API key not valid'' then
        ''Authentication Error: The provided API key is invalid or has expired.''
      else if str_includes message ''500'' \<or> str_includes message ''503''
              \<or> str_includes (toLowerCase message) ''overloaded'' then
        ''Service Unavailable: Google's AI servers are currently overloaded. Please try again shortly.''
      else if str_includes (toLowerCase message) ''fetch'' \<or> str_includes (toLowerCase message) ''network''
              \<or> str_includes (toLowerCase message) ''failed to connect'' then
        ''Connection Error: Unable to reach the AI service. Please check your internet connection.''
      else if str_includes message ''JSON'' \<or> str_includes message ''SyntaxError''
              \<or> str_includes message ''Unexpected token'' then
        ''Data Processing Error: The AI failed to generate valid structured data. Retrying usually fixes this.''
      else if str_includes (toLowerCase message) ''safety'' \<or> str_includes (toLowerCase message) ''blocked''
              \<or> str_includes message ''candidate'' then
        ''Content Blocked: The request was flagged by safety filters. Please try modifying your topic or prompt.''
      else
        ''An unexpected error occurred: '' @ slice0 150 message
          @ (if length message > 150 then ''...'' else ''''))"

section \<open>JSON.parse\<close>

text \<open>
  The value \<open>JSON.parse\<close> builds. An object is the list of its own properties in creation
  order (the reordering of array-index keys is not modelled: nothing here enumerates a parsed
  object). A number is the exact value of its decimal literal.
\<close>

datatype json =
    JNull
  | JBool bool
  | JNumber rat
  | JString string
  | JArray "json list"
  | JObject "(string \<times> json) list"

datatype token =
    LBrace | RBrace | LBracket | RBracket | Colon | Comma
  | TString string | TNumber rat | TTrue | TFalse | TNull

text \<open>JSON white space: space, TAB, LF, CR.\<close>

definition is_json_ws :: "char \<Rightarrow> bool" where
  "is_json_ws c = (c = CHR '' '' \<or> c = CHR 0x09 \<or> c = CHR 0x0A \<or> c = CHR 0x0D)"

definition is_digit :: "char \<Rightarrow> bool" where
  "is_digit c = (c \<in> set ''0123456789'')"

definition digit_val :: "char \<Rightarrow> nat" where
  "digit_val c = of_char c - 48"

definition digits_value :: "string \<Rightarrow> nat" where
  "digits_value ds = foldl (\<lambda>a c. 10 * a + digit_val c) 0 ds"

definition hex_val :: "char \<Rightarrow> nat option" where
  "hex_val c =
     (if is_digit c then Some (of_char c - 48)
      else if c \<in> set ''abcdef'' then Some (of_char c - 87)
      else if c \<in> set ''ABCDEF'' then Some (of_char c - 55)
      else None)"

definition hex4 :: "char \<Rightarrow> char \<Rightarrow> char \<Rightarrow> char \<Rightarrow> nat option" where
  "hex4 a b c d =
     (case (hex_val a, hex_val b, hex_val c, hex_val d) of
        (Some x, Some y, Some z, Some w) \<Rightarrow> Some (((x * 16 + y) * 16 + z) * 16 + w)
      | _ \<Rightarrow> None)"

text \<open>The character a one-letter escape stands for (after the backslash).\<close>

definition simple_escape :: "char \<Rightarrow> char option" where
  "simple_escape e =
     (if e = CHR 0x22 then Some (CHR 0x22)
      else if e = CHR 0x5C then Some (CHR 0x5C)
      else if e = CHR ''/'' then Some (CHR ''/'')
      else if e = CHR ''b'' then Some (CHR 0x08)
      else if e = CHR ''f'' then Some (CHR 0x0C)
      else if e = CHR ''n'' then Some (CHR 0x0A)
      else if e = CHR ''r'' then Some (CHR 0x0D)
      else if e = CHR ''t'' then Some (CHR 0x09)
      else None)"

text \<open>
  The body of a string literal, after its opening quote: the decoded string and the text
  after the closing quote. A raw control character, an unknown escape and a missing closing
  quote are syntax errors. An escape \<open>\uXXXX\<close> above U+00FF names a code unit that the
  8-bit strings of this model cannot hold; such a text is outside the model and is rejected.
\<close>

fun scan_string :: "string \<Rightarrow> (string \<times> string) option" where
  "scan_string [] = None"
| "scan_string (c # cs) =
     (if c = CHR 0x22 then Some ([], cs)
      else if c = CHR 0x5C then
        (case cs of
           [] \<Rightarrow> None
         | e # r \<Rightarrow>
             if e = CHR ''u'' then
               (case r of
                  h1 # h2 # h3 # h4 # r' \<Rightarrow>
                    (case hex4 h1 h2 h3 h4 of
                       None \<Rightarrow> None
                     | Some n \<Rightarrow>
                         if n < 256 then map_option (apfst (Cons (char_of n))) (scan_string r')
                         else None)
                | _ \<Rightarrow> None)
             else
               (case simple_escape e of
                  None \<Rightarrow> None
                | Some ch \<Rightarrow> map_option (apfst (Cons ch)) (scan_string r)))
      else if (of_char c :: nat) < 32 then None
      else map_option (apfst (Cons c)) (scan_string cs))"

text \<open>
  A number literal: \<open>-? (0 | [1-9][0-9]*) (. [0-9]+)? ([eE] [+-]? [0-9]+)?\<close>, with its
  exact value and the text after it.
\<close>

definition number_value :: "bool \<Rightarrow> string \<Rightarrow> string \<Rightarrow> bool \<Rightarrow> string \<Rightarrow> rat" where
  "number_value neg ip fp eneg ep =
     (let m = of_nat (digits_value ip) + of_nat (digits_value fp) / 10 ^ length fp;
          v = (if eneg then m / 10 ^ digits_value ep else m * 10 ^ digits_value ep)
      in if neg then - v else v)"

definition strip_minus :: "string \<Rightarrow> bool \<times> string" where
  "strip_minus s =
     (case s of [] \<Rightarrow> (False, s)
      | c # r \<Rightarrow> if c = CHR ''-'' then (True, r) else (False, s))"

text \<open>The optional fraction: its digits (none when there is no point) and the rest.\<close>

definition lex_fraction :: "string \<Rightarrow> (string \<times> string) option" where
  "lex_fraction s =
     (case s of [] \<Rightarrow> Some ([], s)
      | c # r \<Rightarrow>
          if c = CHR ''.'' then
            (if takeWhile is_digit r = [] then None
             else Some (takeWhile is_digit r, dropWhile is_digit r))
          else Some ([], s))"

text \<open>The optional exponent: its sign, its digits (none when there is no exponent) and the rest.\<close>

definition strip_sign :: "string \<Rightarrow> bool \<times> string" where
  "strip_sign s =
     (case s of [] \<Rightarrow> (False, s)
      | d # r \<Rightarrow> if d = CHR ''-'' then (True, r)
                 else if d = CHR ''+'' then (False, r)
                 else (False, s))"

definition lex_exponent :: "string \<Rightarrow> (bool \<times> string \<times> string) option" where
  "lex_exponent s =
     (case s of [] \<Rightarrow> Some (False, [], s)
      | c # r \<Rightarrow>
          if c = CHR ''e'' \<or> c = CHR ''E'' then
            (case strip_sign r of
               (eneg, r1) \<Rightarrow>
                 if takeWhile is_digit r1 = [] then None
                 else Some (eneg, takeWhile is_digit r1, dropWhile is_digit r1))
          else Some (False, [], s))"

definition lex_number :: "string \<Rightarrow> (rat \<times> string) option" where
  "lex_number s =
     (case strip_minus s of
        (neg, s1) \<Rightarrow>
          let ip = takeWhile is_digit s1 in
          if ip = [] \<or> (length ip > 1 \<and> hd ip = CHR ''0'') then None
          else
            (case lex_fraction (dropWhile is_digit s1) of
               None \<Rightarrow> None
             | Some (fp, s3) \<Rightarrow>
                 (case lex_exponent s3 of
                    None \<Rightarrow> None
                  | Some (eneg, ep, s4) \<Rightarrow> Some (number_value neg ip fp eneg ep, s4))))"

text \<open>Each scanner returns a text shorter than the one it was given.\<close>

lemma scan_string_length: "scan_string s = Some (str, rest) \<Longrightarrow> length rest < length s"
proof (induction "length s" arbitrary: s str rest rule: less_induct)
  case less
  show ?case
  proof (cases s)
    case Nil
    with less.prems show ?thesis by simp
  next
    case (Cons c cs)
    have IH: "\<And>t str'. length t < length s \<Longrightarrow> scan_string t = Some (str', rest)
                \<Longrightarrow> length rest < length t"
      using less.hyps by blast
    from less.prems Cons show ?thesis
      by (auto split: if_splits list.splits option.splits dest!: IH[rotated])
  qed
qed

lemma dropWhile_shorter: "takeWhile P xs \<noteq> [] \<Longrightarrow> length (dropWhile P xs) < length xs"
  by (cases xs) (auto split: if_splits intro: le_imp_less_Suc length_dropWhile_le)

lemma strip_minus_length: "strip_minus s = (neg, r) \<Longrightarrow> length r \<le> length s"
  by (auto simp: strip_minus_def split: list.splits if_splits)

lemma strip_sign_length: "strip_sign s = (neg, r) \<Longrightarrow> length r \<le> length s"
  by (auto simp: strip_sign_def split: list.splits if_splits)

lemma lex_fraction_length: "lex_fraction s = Some (fp, r) \<Longrightarrow> length r \<le> length s"
  by (auto simp: lex_fraction_def split: list.splits if_splits
      intro: le_SucI length_dropWhile_le)

lemma lex_exponent_length: "lex_exponent s = Some (eneg, ep, r) \<Longrightarrow> length r \<le> length s"
  by (auto simp: lex_exponent_def split: list.splits if_splits prod.splits
      dest!: strip_sign_length intro: le_SucI order_trans[OF length_dropWhile_le])

lemma lex_number_length: "lex_number s = Some (v, rest) \<Longrightarrow> length rest < length s"
proof -
  assume a: "lex_number s = Some (v, rest)"
  obtain neg s1 where sm: "strip_minus s = (neg, s1)" by (cases "strip_minus s")
  from a sm obtain fp s3 eneg ep where
    ip: "takeWhile is_digit s1 \<noteq> []" and
    f: "lex_fraction (dropWhile is_digit s1) = Some (fp, s3)" and
    e: "lex_exponent s3 = Some (eneg, ep, rest)"
    by (auto simp: lex_number_def Let_def split: if_splits option.splits)
  from dropWhile_shorter[OF ip] lex_fraction_length[OF f] lex_exponent_length[OF e]
    strip_minus_length[OF sm]
  show ?thesis by simp
qed

text \<open>The text as a list of tokens; \<open>None\<close> when some character starts no token.\<close>

function lex :: "string \<Rightarrow> token list option" where
  "lex [] = Some []"
| "lex (c # cs) =
     (if is_json_ws c then lex cs
      else if c = CHR ''{'' then map_option (Cons LBrace) (lex cs)
      else if c = CHR ''}'' then map_option (Cons RBrace) (lex cs)
      else if c = CHR ''['' then map_option (Cons LBracket) (lex cs)
      else if c = CHR '']'' then map_option (Cons RBracket) (lex cs)
      else if c = CHR '':'' then map_option (Cons Colon) (lex cs)
      else if c = CHR '','' then map_option (Cons Comma) (lex cs)
      else if c = CHR 0x22 then
        (case scan_string cs of
           None \<Rightarrow> None
         | Some (str, rest) \<Rightarrow> map_option (Cons (TString str)) (lex rest))
      else if c = CHR ''-'' \<or> is_digit c then
        (case lex_number (c # cs) of
           None \<Rightarrow> None
         | Some (v, rest) \<Rightarrow> map_option (Cons (TNumber v)) (lex rest))
      else if prefix ''true'' (c # cs) then map_option (Cons TTrue) (lex (drop 3 cs))
      else if prefix ''false'' (c # cs) then map_option (Cons TFalse) (lex (drop 4 cs))
      else if prefix ''null'' (c # cs) then map_option (Cons TNull) (lex (drop 3 cs))
      else None)"
  by pat_completeness auto
termination
proof (relation "measure length")
  fix c cs x2 x y
  assume "scan_string cs = Some x2" "(x, y) = x2"
  then show "(y, c # cs) \<in> measure length"
    using scan_string_length[of cs x y] by simp
next
  fix c cs x2 x y
  assume "lex_number (c # cs) = Some x2" "(x, y) = x2"
  then show "(y, c # cs) \<in> measure length"
    using lex_number_length[of "c # cs" x y] by simp
qed simp_all

text \<open>
  The grammar, as a pushdown automaton over the tokens. A frame is a container under
  construction: an array with its elements so far, an object with its members so far, or an
  object waiting for the value of a key. Storing a member whose key is already present
  replaces the value and keeps the key's place, as assigning a property does.
\<close>

datatype frame =
    ArrayFrame "json list"
  | ObjectFrame "(string \<times> json) list"
  | MemberFrame "(string \<times> json) list" string

datatype mode =
    ExpectValue
  | ExpectValueOrEnd
  | ExpectKeyOrEnd
  | ExpectKey
  | ExpectColon string
  | AfterElement
  | AfterMember
  | Finished json

fun complete :: "json \<Rightarrow> frame list \<Rightarrow> (mode \<times> frame list) option" where
  "complete v [] = Some (Finished v, [])"
| "complete v (ArrayFrame es # st) = Some (AfterElement, ArrayFrame (es @ [v]) # st)"
| "complete v (MemberFrame ms k # st) = Some (AfterMember, ObjectFrame (AList.update k v ms) # st)"
| "complete v (ObjectFrame ms # st) = None"

fun scalar :: "token \<Rightarrow> json option" where
  "scalar (TString s) = Some (JString s)"
| "scalar (TNumber r) = Some (JNumber r)"
| "scalar TTrue = Some (JBool True)"
| "scalar TFalse = Some (JBool False)"
| "scalar TNull = Some JNull"
| "scalar _ = None"

definition start_value :: "token \<Rightarrow> frame list \<Rightarrow> (mode \<times> frame list) option" where
  "start_value t st =
     (if t = LBracket then Some (ExpectValueOrEnd, ArrayFrame [] # st)
      else if t = LBrace then Some (ExpectKeyOrEnd, ObjectFrame [] # st)
      else (case scalar t of None \<Rightarrow> None | Some v \<Rightarrow> complete v st))"

fun close_array :: "frame list \<Rightarrow> (mode \<times> frame list) option" where
  "close_array (ArrayFrame es # st) = complete (JArray es) st"
| "close_array _ = None"

fun close_object :: "frame list \<Rightarrow> (mode \<times> frame list) option" where
  "close_object (ObjectFrame ms # st) = complete (JObject ms) st"
| "close_object _ = None"

fun open_member :: "string \<Rightarrow> frame list \<Rightarrow> (mode \<times> frame list) option" where
  "open_member k (ObjectFrame ms # st) = Some (ExpectValue, MemberFrame ms k # st)"
| "open_member k _ = None"

fun step :: "mode \<Rightarrow> frame list \<Rightarrow> token \<Rightarrow> (mode \<times> frame list) option" where
  "step ExpectValue st t = start_value t st"
| "step ExpectValueOrEnd st t = (if t = RBracket then close_array st else start_value t st)"
| "step ExpectKeyOrEnd st t =
     (case t of RBrace \<Rightarrow> close_object st | TString k \<Rightarrow> Some (ExpectColon k, st) | _ \<Rightarrow> None)"
| "step ExpectKey st t = (case t of TString k \<Rightarrow> Some (ExpectColon k, st) | _ \<Rightarrow> None)"
| "step (ExpectColon k) st t = (if t = Colon then open_member k st else None)"
| "step AfterElement st t =
     (case t of Comma \<Rightarrow> Some (ExpectValue, st) | RBracket \<Rightarrow> close_array st | _ \<Rightarrow> None)"
| "step AfterMember st t =
     (case t of Comma \<Rightarrow> Some (ExpectKey, st) | RBrace \<Rightarrow> close_object st | _ \<Rightarrow> None)"
| "step (Finished v) st t = None"

fun run :: "mode \<Rightarrow> frame list \<Rightarrow> token list \<Rightarrow> json option" where
  "run m st [] = (case m of Finished v \<Rightarrow> Some v | _ \<Rightarrow> None)"
| "run m st (t # ts) = (case step m st t of None \<Rightarrow> None | Some (m', st') \<Rightarrow> run m' st' ts)"

text \<open>\<open>JSON.parse(text)\<close>: the value, or \<open>None\<close> where JavaScript throws a SyntaxError.\<close>

definition JSON_parse :: "string \<Rightarrow> json option" where
  "JSON_parse text = (case lex text of None \<Rightarrow> None | Some ts \<Rightarrow> run ExpectValue [] ts)"

section \<open>Scenes and their export (types.ts, App.tsx handleDownloadAll, SceneCard.tsx)\<close>

text \<open>
  The interface \<open>Scene\<close>. Its two numbers are whole numbers, as the response schema of the
  scenes call asks (INTEGER); JavaScript prints a whole number in plain decimal up to 21
  digits, and only such numbers are meant here.
\<close>

record Scene =
  scene_number :: int
  duration_seconds :: int
  setting_description :: string
  character_appearance :: string
  action_description :: string
  dialogue :: string
  camera_angle :: string
  lighting :: string
  mood :: string














text \<open>A scene, and a scene list, as the value \<open>JSON.parse\<close> builds for it.\<close>

definition Scene_to_json :: "Scene \<Rightarrow> json" where
  "Scene_to_json sc =
     JObject
       [(''scene_number'', JNumber (of_int (scene_number sc))),
        (''duration_seconds'', JNumber (of_int (duration_seconds sc))),
        (''setting_description'', JString (setting_description sc)),
        (''character_appearance'', JString (character_appearance sc)),
        (''action_description'', JString (action_description sc)),
        (''dialogue'', JString (dialogue sc)),
        (''camera_angle'', JString (camera_angle sc)),
        (''lighting'', JString (lighting sc)),
        (''mood'', JString (mood sc))]"

definition scenes_to_json :: "Scene list \<Rightarrow> json" where
  "scenes_to_json scs = JArray (map Scene_to_json scs)"

section \<open>The generation client (services/geminiService.ts)\<close>

text \<open>
  A prompt is kept as the values that fill the holes of its template; the fixed wording
  around them, the model name and the system instruction are constants of the source.
\<close>

record draft_prompt =
  dp_topic :: string
  dp_durationMinutes :: rat
  dp_targetSceneCount :: int
  dp_longer_story :: bool
  dp_mandatory_dialogue :: "string option"

record scenes_prompt =
  sp_storyText :: string
  sp_targetSceneCount :: int
  sp_durationMinutes :: rat
  sp_flexibleInstruction :: bool

text \<open>
  One call of \<open>ai.models.generateContent\<close>: the draft call asks for plain text, the scenes
  call carries the response schema. The endpoint answers a request with a rejection or with
  a response whose \<open>text\<close> may be undefined.
\<close>

datatype request = DraftRequest draft_prompt | ScenesRequest scenes_prompt

type_synonym endpoint = "request \<Rightarrow> thrown + string option"


text \<open>\<open>Math.round\<close>: the nearest integer, a half going up.\<close>

definition Math_round :: "rat \<Rightarrow> int" where
  "Math_round x = \<lfloor>x + 1 / 2\<rfloor>"

text \<open>
  Both functions take the value of \<open>process.env.API_KEY\<close> and the endpoint, then the
  arguments of the source (an omitted optional argument is \<open>None\<close>). They return the
  promise's outcome (\<open>Inl\<close> a rejection) and the requests sent to the endpoint, in order.
\<close>

definition generateStoryDraft ::
  "string option \<Rightarrow> endpoint \<Rightarrow> string \<Rightarrow> string option \<Rightarrow> rat option
     \<Rightarrow> (thrown + string) \<times> request list" where
  "generateStoryDraft apiKey respond topic customDialogue durationMinutes_arg =
     (let durationMinutes = (case durationMinutes_arg of None \<Rightarrow> 1 | Some d \<Rightarrow> d) in
      if \<not> truthy apiKey then
        (Inl (Error ''API Key is missing. Please check your environment configuration.''), [])
      else
        let targetSceneCount = max 1 (Math_round (durationMinutes * 6));
            prompt = \<lparr>dp_topic = topic,
                      dp_durationMinutes = durationMinutes,
                      dp_targetSceneCount = targetSceneCount,
                      dp_longer_story = (durationMinutes > 2),
                      dp_mandatory_dialogue =
                        (if truthy customDialogue then customDialogue else None)\<rparr>
        in (case respond (DraftRequest prompt) of
              Inl error \<Rightarrow> (Inl error, [DraftRequest prompt])
            | Inr text \<Rightarrow>
                (case text of
                   None \<Rightarrow> (Inl (Error ''No story generated from Gemini.''), [DraftRequest prompt])
                 | Some t \<Rightarrow>
                     if t = [] then
                       (Inl (Error ''No story generated from Gemini.''), [DraftRequest prompt])
                     else (Inr t, [DraftRequest prompt]))))"

text \<open>
  \<open>JSON.parse(text) as Scene[]\<close>: the assertion is erased at run time, so the function
  returns whatever value the text parses to. The message of the SyntaxError is the
  JavaScript engine's; it is the parameter \<open>syntax_message\<close>.
\<close>

definition generateScenesFromStory ::
  "string option \<Rightarrow> endpoint \<Rightarrow> (string \<Rightarrow> string) \<Rightarrow> string \<Rightarrow> rat \<Rightarrow> bool option
     \<Rightarrow> (thrown + json) \<times> request list" where
  "generateScenesFromStory apiKey respond syntax_message storyText durationMinutes allowVariations_arg =
     (let allowVariations = (case allowVariations_arg of None \<Rightarrow> False | Some b \<Rightarrow> b) in
      if \<not> truthy apiKey then
        (Inl (Error ''API Key is missing. Please check your environment configuration.''), [])
      else
        let targetSceneCount = max 1 (Math_round (durationMinutes * 6));
            prompt = \<lparr>sp_storyText = storyText,
                      sp_targetSceneCount = targetSceneCount,
                      sp_durationMinutes = durationMinutes,
                      sp_flexibleInstruction = allowVariations\<rparr>
        in (case respond (ScenesRequest prompt) of
              Inl error \<Rightarrow> (Inl error, [ScenesRequest prompt])
            | Inr text \<Rightarrow>
                (case text of
                   None \<Rightarrow> (Inl (Error ''No response generated from Gemini.''), [ScenesRequest prompt])
                 | Some t \<Rightarrow>
                     if t = [] then
                       (Inl (Error ''No response generated from Gemini.''), [ScenesRequest prompt])
                     else
                       (case JSON_parse t of
                          None \<Rightarrow> (Inl (SyntaxError (syntax_message t)), [ScenesRequest prompt])
                        | Some scenes \<Rightarrow> (Inr scenes, [ScenesRequest prompt])))))"

text \<open>
  The shape the request's \<open>responseSchema\<close> describes: an array of objects whose listed
  properties, where present, have the listed type (\<open>True\<close> marks an INTEGER, \<open>False\<close> a
  STRING), and whose required properties are present.
\<close>

definition schema_properties :: "(string \<times> bool) list" where
  "schema_properties =
     [(''scene_number'', True), (''duration_seconds'', True),
      (''setting_description'', False), (''character_appearance'', False),
      (''action_description'', False), (''dialogue'', False), (''camera_angle'', False),
      (''lighting'', False), (''mood'', False)]"

definition schema_required :: "string list" where
  "schema_required =
     [''scene_number'', ''duration_seconds'', ''setting_description'',
      ''character_appearance'', ''action_description'', ''camera_angle'']"

fun has_schema_type :: "bool \<Rightarrow> json \<Rightarrow> bool" where
  "has_schema_type True (JNumber r) = (r = of_int \<lfloor>r\<rfloor>)"
| "has_schema_type False (JString s) = True"
| "has_schema_type _ _ = False"

fun matches_item_schema :: "json \<Rightarrow> bool" where
  "matches_item_schema (JObject ms) =
     (list_all (\<lambda>(k, integer). case map_of ms k of None \<Rightarrow> True
                                | Some v \<Rightarrow> has_schema_type integer v) schema_properties
      \<and> list_all (\<lambda>k. map_of ms k \<noteq> None) schema_required)"
| "matches_item_schema _ = False"

fun matches_responseSchema :: "json \<Rightarrow> bool" where
  "matches_responseSchema (JArray items) = list_all matches_item_schema items"
| "matches_responseSchema _ = False"

section \<open>The view and state controller (App.tsx)\<close>

datatype AppState =
    LOGIN | INPUT | GENERATING_STORY | STORY_REVIEW | GENERATING_SCENES | RESULTS
  | ADMIN_LOGIN | ADMIN_DASHBOARD

record User =
  email :: string
  name :: string
  avatar :: string

datatype Role = RoleUser | RoleAdmin

record UserStats = User +
  stats_id :: string
  storiesGenerated :: int
  totalScenesGenerated :: int
  lastActive :: string
  role :: Role

definition INITIAL_MOCK_DB :: "UserStats list" where
  "INITIAL_MOCK_DB =
     [\<lparr>email = ''alice@studio.com'', name = ''Alice Director'',
       avatar = ''https://picsum.photos/100/100?random=1'', stats_id = ''1'',
       storiesGenerated = 42, totalScenesGenerated = 520,
       lastActive = ''2023-10-24 14:30'', role = RoleUser\<rparr>,
      \<lparr>email = ''bob@creative.net'', name = ''Bob Writer'',
       avatar = ''https://picsum.photos/100/100?random=2'', stats_id = ''2'',
       storiesGenerated = 15, totalScenesGenerated = 180,
       lastActive = ''2023-10-25 09:15'', role = RoleUser\<rparr>,
      \<lparr>email = ''charlie@video.io'', name = ''Charlie Motion'',
       avatar = ''https://picsum.photos/100/100?random=3'', stats_id = ''3'',
       storiesGenerated = 8, totalScenesGenerated = 96,
       lastActive = ''2023-10-26 11:00'', role = RoleUser\<rparr>,
      \<lparr>email = ''demo.user@gmail.com'', name = ''Creative Director'',
       avatar = ''https://picsum.photos/100/100?random=4'', stats_id = ''4'',
       storiesGenerated = 0, totalScenesGenerated = 0,
       lastActive = ''Now'', role = RoleUser\<rparr>]"

definition MOCK_USER :: User where
  "MOCK_USER = \<lparr>email = ''demo.user@gmail.com'', name = ''Creative Director'',
                 avatar = ''https://picsum.photos/100/100?random=4''\<rparr>"

text \<open>The state cells of the App component, in the order of their \<open>useState\<close> calls.\<close>

record state =
  appState :: AppState
  user :: "User option"
  googleClientId :: string
  showClientConfig :: bool
  loginError :: "string option"
  topic :: string
  customDialogue :: string
  duration :: rat
  storyDraft :: string
  scenes :: "Scene list"
  error :: "string option"
  allowVariations :: bool
  adminPassword :: string
  adminError :: string
  userDb :: "UserStats list"

text \<open>The initial values; the client id comes from the environment.\<close>

definition initial_state :: "string \<Rightarrow> state" where
  "initial_state clientId =
     \<lparr>appState = LOGIN, user = None, googleClientId = clientId, showClientConfig = False,
      loginError = None, topic = [], customDialogue = [], duration = 1, storyDraft = [],
      scenes = [], error = None, allowVariations = False, adminPassword = [],
      adminError = [], userDb = INITIAL_MOCK_DB\<rparr>"

text \<open>The function \<open>updateUserActivity\<close> hands to \<open>setUserDb\<close>; \<open>scenesCount\<close> defaults to 0.\<close>

definition updateUserActivity :: "string \<Rightarrow> int option \<Rightarrow> UserStats list \<Rightarrow> UserStats list" where
  "updateUserActivity email' scenesCount_arg prev =
     (let scenesCount = (case scenesCount_arg of None \<Rightarrow> 0 | Some n \<Rightarrow> n) in
      map (\<lambda>u. if email u = email' then
                   u\<lparr>lastActive := ''Just now'',
                     storiesGenerated :=
                       (if scenesCount > 0 then storiesGenerated u + 1 else storiesGenerated u),
                     totalScenesGenerated := totalScenesGenerated u + scenesCount\<rparr>
                else u) prev)"

definition handleLogout :: "state \<Rightarrow> state" where
  "handleLogout s =
     s\<lparr>user := None, appState := LOGIN, scenes := [], topic := [], customDialogue := [],
       storyDraft := [], duration := 1, allowVariations := False\<rparr>"

text \<open>
  An asynchronous handler runs in two parts. The first part runs when the handler is
  invoked: it returns the new state and the arguments of the generation call it issues, or
  \<open>None\<close> when it returns without a call. The second part runs when the awaited call
  settles: it takes the outcome (\<open>Inl\<close> what the \<open>catch\<close> clause receives) and the state of
  that moment. The handler as a whole is the two parts with nothing in between.
\<close>

definition handleGenerateDraft_begin :: "state \<Rightarrow> state \<times> (string \<times> string \<times> rat) option" where
  "handleGenerateDraft_begin s =
     (if trim (topic s) = [] then (s, None)
      else
        let safeDuration = (if duration s \<le> 0 then 1 else duration s)
        in (s\<lparr>appState := GENERATING_STORY, error := None\<rparr>,
            Some (topic s, customDialogue s, safeDuration)))"

definition handleGenerateDraft_settle :: "thrown + string \<Rightarrow> state \<Rightarrow> state" where
  "handleGenerateDraft_settle outcome s =
     (case outcome of
        Inr draft \<Rightarrow> s\<lparr>storyDraft := draft, appState := STORY_REVIEW\<rparr>
      | Inl err \<Rightarrow> s\<lparr>error := Some (getFriendlyErrorMessage err), appState := INPUT\<rparr>)"

definition handleGenerateDraft :: "thrown + string \<Rightarrow> state \<Rightarrow> state" where
  "handleGenerateDraft outcome s =
     (case handleGenerateDraft_begin s of
        (s', None) \<Rightarrow> s'
      | (s', Some call) \<Rightarrow> handleGenerateDraft_settle outcome s')"

definition handleGenerateScenes_begin :: "state \<Rightarrow> state \<times> (string \<times> rat \<times> bool) option" where
  "handleGenerateScenes_begin s =
     (if trim (storyDraft s) = [] then (s, None)
      else
        let safeDuration = (if duration s \<le> 0 then 1 else duration s)
        in (s\<lparr>appState := GENERATING_SCENES, error := None\<rparr>,
            Some (storyDraft s, safeDuration, allowVariations s)))"

text \<open>
  The second part reads \<open>user\<close> from the closure of the render that invoked the handler,
  hence the argument \<open>user_then\<close>; the state setters act on the state of the moment. The
  outcome has the type the service declares, \<open>Promise<Scene[]>\<close>.
\<close>

definition handleGenerateScenes_settle ::
  "User option \<Rightarrow> thrown + Scene list \<Rightarrow> state \<Rightarrow> state" where
  "handleGenerateScenes_settle user_then outcome s =
     (case outcome of
        Inr generatedScenes \<Rightarrow>
          (let s1 = s\<lparr>scenes := generatedScenes\<rparr>;
               s2 = (case user_then of
                       None \<Rightarrow> s1
                     | Some u \<Rightarrow>
                         s1\<lparr>userDb := updateUserActivity (email u)
                                        (Some (int (length generatedScenes))) (userDb s1)\<rparr>)
           in s2\<lparr>appState := RESULTS\<rparr>)
      | Inl err \<Rightarrow> s\<lparr>error := Some (getFriendlyErrorMessage err), appState := STORY_REVIEW\<rparr>)"

definition handleGenerateScenes :: "thrown + Scene list \<Rightarrow> state \<Rightarrow> state" where
  "handleGenerateScenes outcome s =
     (case handleGenerateScenes_begin s of
        (s', None) \<Rightarrow> s'
      | (s', Some call) \<Rightarrow> handleGenerateScenes_settle (user s) outcome s')"

text \<open>\<open>handleReset\<close>; \<open>confirmed\<close> is the answer of \<open>window.confirm\<close>.\<close>

definition handleReset :: "bool \<Rightarrow> state \<Rightarrow> state" where
  "handleReset confirmed s =
     (if confirmed then
        s\<lparr>appState := INPUT, topic := [], customDialogue := [], storyDraft := [],
          duration := 1, scenes := []\<rparr>
      else s)"

definition handleBackToInput :: "state \<Rightarrow> state" where
  "handleBackToInput s = s\<lparr>appState := INPUT\<rparr>"

section \<open>The classifier as an ordered list of rules\<close>






section \<open>The tokens of an exported scene list\<close>



section \<open>Sample values\<close>

definition sample_scene :: Scene where
  "sample_scene =
     \<lparr>scene_number = 1, duration_seconds = 10,
      setting_description = ''A lighthouse at dusk'',
      character_appearance = ''An old keeper in a navy coat'',
      action_description = ''He picks up a bottle'',
      dialogue = [], camera_angle = ''Wide Shot'', lighting = ''Sunset'', mood = ''Calm''\<rparr>"

text \<open>The demo user on the input screen with a topic typed in.\<close>

definition sample_input_state :: state where
  "sample_input_state =
     (initial_state [])\<lparr>appState := INPUT, user := Some MOCK_USER,
        topic := ''A lighthouse keeper finds a message in a bottle''\<rparr>"

text \<open>The same user reviewing a draft, with the variations box ticked.\<close>

definition sample_review_state :: state where
  "sample_review_state =
     sample_input_state\<lparr>appState := STORY_REVIEW,
        storyDraft := ''The keeper walked down to the shore.'', allowVariations := True\<rparr>"

text \<open>The results screen reached from there with one scene.\<close>

definition sample_results_state :: state where
  "sample_results_state = handleGenerateScenes (Inr [sample_scene]) sample_review_state"

text \<open>A user whose email is in no record of the mock database.\<close>

definition sample_new_user :: User where
  "sample_new_user = \<lparr>email = ''new.user@example.org'', name = ''New User'', avatar = []\<rparr>"

text \<open>An endpoint that answers every request with the same text.\<close>

definition answering :: "string \<Rightarrow> endpoint" where
  "answering t = (\<lambda>request. Inr (Some t))"

section \<open>Properties of the generation client\<close>




text \<open>
  C5. When no API credential is configured (the key is undefined or empty), the draft call
  and the scenes call both fail with the missing-credential error, and the list of requests
  sent to the endpoint is empty, whatever the other arguments are.
\<close>

theorem missing_credential_fails_before_any_request:
  assumes "\<not> truthy apiKey"
  shows "generateStoryDraft apiKey respond topic' customDialogue' durationMinutes'
           = (Inl (Error ''API Key is missing. Please check your environment configuration.''), [])
       \<and> generateScenesFromStory apiKey respond' msg storyText d allowVariations'
           = (Inl (Error ''API Key is missing. Please check your environment configuration.''), [])"
  using assms by (simp add: generateStoryDraft_def generateScenesFromStory_def Let_def)

theorem missing_credential_witness:
  "\<not> truthy None
   \<and> generateStoryDraft None (answering ''Once'') ''A topic'' None (Some 1)
       = (Inl (Error ''API Key is missing. Please check your environment configuration.''), [])
   \<and> generateScenesFromStory None (answering ''[]'') id ''Once'' 1 None
       = (Inl (Error ''API Key is missing. Please check your environment configuration.''), [])"
  using missing_credential_fails_before_any_request[of None "answering ''Once''" "''A topic''" None
      "Some 1" "answering ''[]''" id "''Once''" 1 None]
  by (simp add: truthy_def)






section \<open>Properties of the error classifier\<close>


lemma str_includes_sublist: "str_includes m n \<longleftrightarrow> sublist n m"
  by (induction m) (auto simp: sublist_Cons_right)







section \<open>Properties of the controller\<close>

lemma sample_topic_not_blank: "trim (topic sample_input_state) \<noteq> []"
  by (simp add: sample_input_state_def trim_def is_trim_space_def)

lemma sample_draft_not_blank: "trim (storyDraft sample_review_state) \<noteq> []"
  by (simp add: sample_review_state_def trim_def is_trim_space_def)

text \<open>
  C4. A draft request issued from the Input stage that fails brings the controller back to
  Input with an error message set and the draft text unchanged; a scene request issued from
  the DraftReview stage that fails brings it back to DraftReview with the draft text (and the
  scene list and the activity records) unchanged. The stage never moves past the point of
  retrying.
\<close>

theorem failed_generation_returns_to_the_editable_stage:
  "(appState s = INPUT \<and> trim (topic s) \<noteq> [] \<longrightarrow>
      fst (handleGenerateDraft_begin s)
        = s\<lparr>appState := GENERATING_STORY, error := None\<rparr>
      \<and> appState (handleGenerateDraft (Inl err) s) = INPUT
      \<and> error (handleGenerateDraft (Inl err) s) = Some (getFriendlyErrorMessage err)
      \<and> storyDraft (handleGenerateDraft (Inl err) s) = storyDraft s
      \<and> topic (handleGenerateDraft (Inl err) s) = topic s)
   \<and> (appState s' = STORY_REVIEW \<and> trim (storyDraft s') \<noteq> [] \<longrightarrow>
      appState (handleGenerateScenes (Inl err') s') = STORY_REVIEW
      \<and> error (handleGenerateScenes (Inl err') s') = Some (getFriendlyErrorMessage err')
      \<and> storyDraft (handleGenerateScenes (Inl err') s') = storyDraft s'
      \<and> scenes (handleGenerateScenes (Inl err') s') = scenes s'
      \<and> userDb (handleGenerateScenes (Inl err') s') = userDb s')"
  by (simp add: handleGenerateDraft_begin_def handleGenerateDraft_def
      handleGenerateDraft_settle_def handleGenerateScenes_begin_def handleGenerateScenes_def
      handleGenerateScenes_settle_def Let_def)

theorem failed_generation_witness:
  "appState sample_input_state = INPUT \<and> trim (topic sample_input_state) \<noteq> []
   \<and> appState (handleGenerateDraft (Inl (Error ''fetch failed'')) sample_input_state) = INPUT
   \<and> error (handleGenerateDraft (Inl (Error ''fetch failed'')) sample_input_state) \<noteq> None
   \<and> storyDraft (handleGenerateDraft (Inl (Error ''fetch failed'')) sample_input_state) = []
   \<and> appState sample_review_state = STORY_REVIEW \<and> trim (storyDraft sample_review_state) \<noteq> []
   \<and> appState (handleGenerateScenes (Inl (Error ''fetch failed'')) sample_review_state) = STORY_REVIEW
   \<and> storyDraft (handleGenerateScenes (Inl (Error ''fetch failed'')) sample_review_state)
       = ''The keeper walked down to the shore.''"
  using failed_generation_returns_to_the_editable_stage[of sample_input_state
      "Error ''fetch failed''" sample_review_state "Error ''fetch failed''"]
    sample_topic_not_blank sample_draft_not_blank
  by (simp add: sample_input_state_def sample_review_state_def initial_state_def)

text \<open>What a confirmed reset writes and what it leaves as it was.\<close>

lemma handleReset_confirmed:
  "handleReset True s = s' \<Longrightarrow>
     appState s' = INPUT \<and> topic s' = [] \<and> customDialogue s' = [] \<and> storyDraft s' = []
     \<and> duration s' = 1 \<and> scenes s' = [] \<and> allowVariations s' = allowVariations s
     \<and> error s' = error s"
  by (auto simp: handleReset_def)

text \<open>
  C6 at a failing input. On the results screen reached with the variations box ticked, a
  confirmed reset leaves the consistency-mode flag ticked, while its initial value is
  unticked and the logout handler does untick it.
\<close>

theorem reset_keeps_the_variations_flag:
  "appState sample_results_state = RESULTS
   \<and> allowVariations sample_results_state = True
   \<and> error sample_results_state = None
   \<and> allowVariations (handleReset True sample_results_state) = True
   \<and> allowVariations (initial_state []) = False
   \<and> allowVariations (handleLogout sample_results_state) = False"
  by (simp add: sample_results_state_def sample_review_state_def sample_input_state_def
      initial_state_def handleReset_def handleLogout_def handleGenerateScenes_def
      handleGenerateScenes_begin_def handleGenerateScenes_settle_def Let_def trim_def
      is_trim_space_def)




text \<open>
  C9. With a topic that is empty or all white space the draft handler, and with a draft that
  is empty or all white space the scenes handler, issues no generation call and returns the
  state as it was, in every field.
\<close>

theorem blank_input_handlers_do_nothing:
  "(trim (topic s) = [] \<longrightarrow>
      handleGenerateDraft_begin s = (s, None) \<and> handleGenerateDraft outcome s = s)
   \<and> (trim (storyDraft s') = [] \<longrightarrow>
      handleGenerateScenes_begin s' = (s', None) \<and> handleGenerateScenes outcome' s' = s')"
  by (simp add: handleGenerateDraft_begin_def handleGenerateDraft_def
      handleGenerateScenes_begin_def handleGenerateScenes_def)

theorem blank_input_witness:
  "trim (topic (sample_input_state\<lparr>topic := [CHR '' '', CHR 0x09]\<rparr>)) = []
   \<and> handleGenerateDraft (Inr ''A story'') (sample_input_state\<lparr>topic := [CHR '' '', CHR 0x09]\<rparr>)
       = sample_input_state\<lparr>topic := [CHR '' '', CHR 0x09]\<rparr>
   \<and> trim (storyDraft (sample_review_state\<lparr>storyDraft := []\<rparr>)) = []
   \<and> handleGenerateScenes (Inr [sample_scene]) (sample_review_state\<lparr>storyDraft := []\<rparr>)
       = sample_review_state\<lparr>storyDraft := []\<rparr>"
  using blank_input_handlers_do_nothing[of "sample_input_state\<lparr>topic := [CHR '' '', CHR 0x09]\<rparr>"
      "Inr ''A story''" "sample_review_state\<lparr>storyDraft := []\<rparr>" "Inr [sample_scene]"]
  by (simp add: trim_def is_trim_space_def)

lemma updateUserActivity_absent:
  "email' \<notin> set (map email db) \<Longrightarrow> updateUserActivity email' n db = db"
  by (induction db) (auto simp: updateUserActivity_def Let_def)

lemma updateUserActivity_emails: "map email (updateUserActivity email' n db) = map email db"
  by (induction db) (auto simp: updateUserActivity_def Let_def)

text \<open>
  C10. For every email that no record of the user list carries, the update returns the list
  unchanged; no update ever changes the emails in the list; so a successful generation by a
  user whose email is not in the list leaves the list as it was.
\<close>

theorem activity_of_unknown_email_is_not_recorded:
  assumes "email' \<notin> set (map email db)"
  shows "updateUserActivity email' n db = db
       \<and> map email (updateUserActivity other m db) = map email db
       \<and> (userDb s = db \<and> email u = email' \<longrightarrow>
            userDb (handleGenerateScenes_settle (Some u) (Inr generatedScenes) s) = db)"
  using assms updateUserActivity_absent[of email' db] updateUserActivity_emails[of other m db]
  by (simp add: handleGenerateScenes_settle_def Let_def)

theorem activity_of_unknown_email_witness:
  "''new.user@example.org'' \<notin> set (map email INITIAL_MOCK_DB)
   \<and> updateUserActivity ''new.user@example.org'' (Some 6) INITIAL_MOCK_DB = INITIAL_MOCK_DB
   \<and> userDb (sample_review_state\<lparr>user := Some sample_new_user\<rparr>) = INITIAL_MOCK_DB
   \<and> email sample_new_user = ''new.user@example.org''
   \<and> userDb (handleGenerateScenes_settle (Some sample_new_user) (Inr [sample_scene])
         (sample_review_state\<lparr>user := Some sample_new_user\<rparr>)) = INITIAL_MOCK_DB"
  using activity_of_unknown_email_is_not_recorded[of "''new.user@example.org''" INITIAL_MOCK_DB
      "Some 6" "[]" None "sample_review_state\<lparr>user := Some sample_new_user\<rparr>" sample_new_user
      "[sample_scene]"]
  by (simp add: INITIAL_MOCK_DB_def sample_review_state_def sample_input_state_def
      initial_state_def sample_new_user_def)

section \<open>Properties of the export\<close>

subsection \<open>Numbers: printing and reading back\<close>

















subsection \<open>Strings: quoting and reading back\<close>









declare lex.simps[simp del]




subsection \<open>From tokens to the value\<close>








lemma Scene_matches_item_schema: "matches_item_schema (Scene_to_json sc)"
  by (simp add: Scene_to_json_def schema_properties_def schema_required_def)

lemma scenes_match_responseSchema: "matches_responseSchema (scenes_to_json scs)"
  by (induction scs) (simp_all add: scenes_to_json_def Scene_matches_item_schema)



end
